theory Spec2Isabelle
  imports Main
begin

section \<open>Python strings\<close>

text \<open>
  A Python \<open>str\<close> is a \<open>string\<close>; a character stands for a code point below 256.
  \<open>isspace\<close> lists the code points below 256 that \<open>str.strip()\<close> removes.
\<close>

definition isspace :: "char \<Rightarrow> bool" where
  "isspace c = (c \<in> set [CHR 0x09, CHR 0x0A, CHR 0x0B, CHR 0x0C, CHR 0x0D,
                          CHR 0x1C, CHR 0x1D, CHR 0x1E, CHR 0x1F, CHR 0x20,
                          CHR 0x85, CHR 0xA0])"

definition strip :: "string \<Rightarrow> string" where
  "strip s = rev (dropWhile isspace (rev (dropWhile isspace s)))"

definition startswith :: "string \<Rightarrow> string \<Rightarrow> bool" where
  "startswith s p = (take (length p) s = p)"

definition endswith :: "string \<Rightarrow> string \<Rightarrow> bool" where
  "endswith s x = (length x \<le> length s \<and> drop (length s - length x) s = x)"

text \<open>
  \<open>s.replace(old, new)\<close>: the occurrences of \<open>old\<close> are found from the left and do not
  overlap; an empty \<open>old\<close> matches before every character and at the end.
\<close>

function str_replace :: "string \<Rightarrow> string \<Rightarrow> string \<Rightarrow> string" where
  "str_replace old new [] = (if old = [] then new else [])"
| "str_replace old new (c # cs) =
     (if old = [] then new @ c # str_replace old new cs
      else if startswith (c # cs) old
        then new @ str_replace old new (drop (length old) (c # cs))
      else c # str_replace old new cs)"
  by pat_completeness auto
termination
  by (relation "measure (\<lambda>(old, new, s). length s)") auto

text \<open>\<open>x or d\<close> for an argument that is \<open>None\<close> or a \<open>str\<close>: the empty string is falsy.\<close>

definition py_or :: "string option \<Rightarrow> string \<Rightarrow> string" where
  "py_or x d = (case x of None \<Rightarrow> d | Some s \<Rightarrow> if s = [] then d else s)"

text \<open>\<open>sep.join(xs)\<close> and \<open>s.split(sep)\<close> for a one-character separator.\<close>

fun str_join :: "string \<Rightarrow> string list \<Rightarrow> string" where
  "str_join s [] = []"
| "str_join s [x] = x"
| "str_join s (x # y # ys) = x @ s @ str_join s (y # ys)"

fun str_split :: "char \<Rightarrow> string \<Rightarrow> string \<Rightarrow> string list" where
  "str_split d cur [] = [cur]"
| "str_split d cur (c # cs) =
     (if c = d then cur # str_split d [] cs else str_split d (cur @ [c]) cs)"

section \<open>\<open>posixpath\<close>\<close>

text \<open>
  \<open>os.path.split\<close> and \<open>os.path.join\<close> on a POSIX system, the latter for two
  arguments, as the script calls it.
\<close>

definition sep :: char where
  "sep = CHR ''/''"

text \<open>\<open>p.rfind(sep) + 1\<close>: the length of the longest prefix that ends with \<open>sep\<close>, or 0.\<close>

definition rfind_succ :: "char \<Rightarrow> string \<Rightarrow> nat" where
  "rfind_succ c p = length p - length (takeWhile (\<lambda>x. x \<noteq> c) (rev p))"

definition rstrip_sep :: "string \<Rightarrow> string" where
  "rstrip_sep s = rev (dropWhile (\<lambda>x. x = sep) (rev s))"

definition path_split :: "string \<Rightarrow> string \<times> string" where
  "path_split p =
     (let i = rfind_succ sep p; head = take i p; tail = drop i p
      in (if head \<noteq> [] \<and> head \<noteq> replicate (length head) sep
          then rstrip_sep head else head, tail))"

definition path_join :: "string \<Rightarrow> string \<Rightarrow> string" where
  "path_join a b =
     (if startswith b [sep] then b
      else if a = [] \<or> endswith a [sep] then a @ b
      else a @ [sep] @ b)"

section \<open>Files, errors and the world outside the script\<close>

text \<open>
  A path names a regular file with its text, or a directory. The text of a file is what
  Python's text-mode reader delivers: decoded, a newline character ending each line but
  possibly the last.
  Reading fails when nothing is at the path, or a directory is: \<open>open\<close> raises
  \<open>FileNotFoundError\<close> or \<open>IsADirectoryError\<close>. The other three errors are the spec's
  names for the failures of the fetcher, the verifier and the extractor.
\<close>

datatype node = File string | Dir

datatype error =
    FileNotFoundError string
  | IsADirectoryError string
  | NetworkError string
  | ChecksumMismatchError string string
  | ExtractionError

text \<open>
  The world: the disk, what each URL serves (\<open>None\<close> when the endpoint cannot be
  reached), the log of the requests made so far, and the log of the archives handed to
  the extractor so far. A raised exception is \<open>Inl\<close>; the world comes back beside it,
  as the effects before the raise stay.
\<close>

record world =
  disk :: "string \<rightharpoonup> node"
  remote :: "string \<rightharpoonup> string"
  requests :: "string list"
  extracted :: "string list"

type_synonym fetcher = "string \<Rightarrow> string \<Rightarrow> world \<Rightarrow> (error + unit) \<times> world"

definition open_read :: "(string \<rightharpoonup> node) \<Rightarrow> string \<Rightarrow> error + string" where
  "open_read d p =
     (case d p of
        None \<Rightarrow> Inl (FileNotFoundError p)
      | Some Dir \<Rightarrow> Inl (IsADirectoryError p)
      | Some (File s) \<Rightarrow> Inr s)"

text \<open>\<open>for line in file\<close>: the lines of the text, each with its newline character.\<close>

fun file_lines :: "string \<Rightarrow> string \<Rightarrow> string list" where
  "file_lines cur [] = (if cur = [] then [] else [cur])"
| "file_lines cur (c # cs) =
     (if c = CHR 0x0A then (cur @ [c]) # file_lines [] cs else file_lines (cur @ [c]) cs)"

section \<open>\<open>LibrarySourceCode\<close>\<close>

definition version_str :: string where
  "version_str = ''3.0.0''"

definition libstemmer_c_version :: string where
  "libstemmer_c_version = str_join ''.'' (take 3 (str_split CHR ''.'' [] version_str))"

definition LIBRARY_CORE_DIRS :: "string list" where
  "LIBRARY_CORE_DIRS = [''src_c'', ''runtime'', ''libstemmer'', ''include'']"

definition DEFAULT_URI :: string where
  "DEFAULT_URI = ''https://snowballstem.org/dist/libstemmer_c-'' @ libstemmer_c_version @ ''.tar.gz''"

definition DEFAULT_CHECKSUM :: string where
  "DEFAULT_CHECKSUM = ''d4eca4485f6d3cb4387626a5f508b9b3489d24737525c23ba58026159497a8bc''"

record LibrarySourceCode =
  directory :: string

definition LIBRARY_SOURCE_CODE :: LibrarySourceCode where
  "LIBRARY_SOURCE_CODE = \<lparr>directory = ''libstemmer_c-'' @ libstemmer_c_version\<rparr>"

definition manifest_file_path :: "LibrarySourceCode \<Rightarrow> string" where
  "manifest_file_path self = path_join (directory self) ''mkinc_utf8.mak''"

definition include_directories :: "LibrarySourceCode \<Rightarrow> string list" where
  "include_directories self = [path_join (directory self) ''include'']"

definition iter_manifest_lines :: "LibrarySourceCode \<Rightarrow> (string \<rightharpoonup> node) \<Rightarrow> error + string list" where
  "iter_manifest_lines self d =
     (case open_read d (manifest_file_path self) of
        Inl e \<Rightarrow> Inl e
      | Inr s \<Rightarrow> Inr (file_lines [] s))"

text \<open>\<open>line.strip().replace(' \\', '')\<close>: the pattern is a space and a backslash.\<close>

definition clean_line :: "string \<Rightarrow> string" where
  "clean_line line = str_replace [CHR 0x20, CHR 0x5C] [] (strip line)"

text \<open>
  The set \<open>paths\<close> is kept as a list without duplicates, in the order of insertion;
  Python promises no order, so the theorems speak of \<open>set\<close> of it.
\<close>

definition set_add :: "'a \<Rightarrow> 'a list \<Rightarrow> 'a list" where
  "set_add x xs = (if x \<in> set xs then xs else xs @ [x])"

fun scan_lines :: "LibrarySourceCode \<Rightarrow> string list \<Rightarrow> string list \<Rightarrow> string list" where
  "scan_lines self paths [] = paths"
| "scan_lines self paths (l # ls) =
     (let line = clean_line l; dir = fst (path_split line)
      in if endswith line ''.c'' \<and> dir \<in> set LIBRARY_CORE_DIRS
         then scan_lines self (set_add (path_join (directory self) line) paths) ls
         else scan_lines self paths ls)"

definition source_code_paths :: "LibrarySourceCode \<Rightarrow> (string \<rightharpoonup> node) \<Rightarrow> error + string list" where
  "source_code_paths self d =
     (case iter_manifest_lines self d of
        Inl e \<Rightarrow> Inl e
      | Inr ls \<Rightarrow> Inr (scan_lines self [] ls))"

definition is_present_on_disk :: "LibrarySourceCode \<Rightarrow> (string \<rightharpoonup> node) \<Rightarrow> bool" where
  "is_present_on_disk self d = (d (directory self) \<noteq> None)"

text \<open>
  \<open>download\<close> hands the URL and the checksum, or their defaults, to
  \<open>tarballfetcher.download_and_extract_tarball\<close>, here the parameter \<open>dl\<close>.
\<close>

definition download :: "fetcher \<Rightarrow> LibrarySourceCode \<Rightarrow> string option \<Rightarrow> string option \<Rightarrow> world \<Rightarrow> (error + unit) \<times> world" where
  "download dl self url checksum w =
     dl (py_or url DEFAULT_URI) (py_or checksum DEFAULT_CHECKSUM) w"

section \<open>\<open>tarballfetcher\<close>\<close>

text \<open>
  Modelled from the spec: \<open>tarballfetcher.download_and_extract_tarball\<close> is imported by
  \<open>download\<close> and its module is not among the sources. The Archive Fetcher retrieves the
  bytes a URI serves and signals \<open>NetworkError\<close> when the endpoint cannot be reached.
\<close>

definition fetch :: "string \<Rightarrow> world \<Rightarrow> (error + string) \<times> world" where
  "fetch uri w =
     (let w' = w\<lparr>requests := requests w @ [uri]\<rparr>
      in case remote w uri of
           None \<Rightarrow> (Inl (NetworkError uri), w')
         | Some bs \<Rightarrow> (Inr bs, w'))"

text \<open>
  Modelled from the spec: the verifier of the absent \<open>tarballfetcher\<close> compares digests
  case-insensitively; \<open>lower\<close> lowers the ASCII letters, as \<open>str.lower()\<close> does on a
  digest in hexadecimal.
\<close>

definition lower_char :: "char \<Rightarrow> char" where
  "lower_char c =
     (case map_of (zip ''ABCDEFGHIJKLMNOPQRSTUVWXYZ'' ''abcdefghijklmnopqrstuvwxyz'') c of
        None \<Rightarrow> c
      | Some l \<Rightarrow> l)"

definition lower :: "string \<Rightarrow> string" where
  "lower s = map lower_char s"

text \<open>
  Modelled from the spec: the Integrity Verifier of the absent \<open>tarballfetcher\<close>. It
  computes the SHA-256 digest of the fetched bytes, compares it case-insensitively with
  the expected digest and signals \<open>ChecksumMismatchError\<close> with the expected and the
  computed digest. The hash function is the parameter \<open>sha256\<close>, from bytes to the
  digest in hexadecimal.
\<close>

definition verify :: "(string \<Rightarrow> string) \<Rightarrow> string \<Rightarrow> string \<Rightarrow> error + unit" where
  "verify sha256 bs expected =
     (let computed = sha256 bs
      in if lower computed = lower expected then Inr ()
         else Inl (ChecksumMismatchError expected computed))"

text \<open>
  Modelled from the spec: the Archive Extractor of the absent \<open>tarballfetcher\<close>. It
  unpacks the archive onto the disk and signals \<open>ExtractionError\<close> on a malformed
  archive or an I/O failure. What an archive unpacks to is the parameter \<open>untar\<close>
  (\<open>None\<close> when it fails); \<open>download\<close> passes no target directory.
\<close>

definition extract_archive :: "(string \<Rightarrow> (string \<rightharpoonup> node) \<Rightarrow> (string \<rightharpoonup> node) option) \<Rightarrow> string \<Rightarrow> world \<Rightarrow> (error + unit) \<times> world" where
  "extract_archive untar bs w =
     (let w' = w\<lparr>extracted := extracted w @ [bs]\<rparr>
      in case untar bs (disk w) of
           None \<Rightarrow> (Inl ExtractionError, w')
         | Some d \<Rightarrow> (Inr (), w'\<lparr>disk := d\<rparr>))"

text \<open>
  Modelled from the spec: \<open>tarballfetcher.download_and_extract_tarball(url,
  expected_sha256)\<close>, absent from the sources: the Fetcher, then the Verifier on the
  fetched bytes, then the Extractor; the first failing stage ends the sequence.
\<close>

definition download_and_extract_tarball :: "(string \<Rightarrow> string) \<Rightarrow> (string \<Rightarrow> (string \<rightharpoonup> node) \<Rightarrow> (string \<rightharpoonup> node) option) \<Rightarrow> fetcher" where
  "download_and_extract_tarball sha256 untar url expected_sha256 w =
     (case fetch url w of
        (Inl e, w1) \<Rightarrow> (Inl e, w1)
      | (Inr bs, w1) \<Rightarrow>
          (case verify sha256 bs expected_sha256 of
             Inl e \<Rightarrow> (Inl e, w1)
           | Inr _ \<Rightarrow> extract_archive untar bs w1))"

section \<open>The module-level code\<close>

text \<open>\<open>os.environ.get(name, False)\<close> is a \<open>str\<close> or \<open>False\<close>; a \<open>str\<close> is truthy unless empty.\<close>

datatype pyval = Str string | Bool bool

definition environ_get :: "(string \<rightharpoonup> string) \<Rightarrow> string \<Rightarrow> pyval \<Rightarrow> pyval" where
  "environ_get environ k dflt = (case environ k of None \<Rightarrow> dflt | Some v \<Rightarrow> Str v)"

fun truthy :: "pyval \<Rightarrow> bool" where
  "truthy (Str s) = (s \<noteq> [])"
| "truthy (Bool b) = b"

definition SYSTEM_LIBSTEMMER :: "(string \<rightharpoonup> string) \<Rightarrow> pyval" where
  "SYSTEM_LIBSTEMMER environ = environ_get environ ''PYSTEMMER_SYSTEM_LIBSTEMMER'' (Bool False)"

text \<open>The arguments of \<open>Extension\<close> the script sets; an omitted list is empty.\<close>

record Extension =
  name :: string
  sources :: "string list"
  include_dirs :: "string list"
  libraries :: "string list"

text \<open>\<open>if not LIBRARY_SOURCE_CODE.is_present_on_disk(): LIBRARY_SOURCE_CODE.download()\<close>\<close>

definition acquisition_guard :: "fetcher \<Rightarrow> LibrarySourceCode \<Rightarrow> world \<Rightarrow> (error + unit) \<times> world" where
  "acquisition_guard dl self w =
     (if \<not> is_present_on_disk self (disk w) then download dl self None None w
      else (Inr (), w))"

definition C_EXTENSION :: "fetcher \<Rightarrow> (string \<rightharpoonup> string) \<Rightarrow> world \<Rightarrow> (error + Extension) \<times> world" where
  "C_EXTENSION dl environ w =
     (if truthy (SYSTEM_LIBSTEMMER environ)
      then (Inr \<lparr>name = ''Stemmer'', sources = [''src/Stemmer.pyx''],
                 include_dirs = [], libraries = [''stemmer'']\<rparr>, w)
      else
        (case acquisition_guard dl LIBRARY_SOURCE_CODE w of
           (Inl e, w1) \<Rightarrow> (Inl e, w1)
         | (Inr _, w1) \<Rightarrow>
             (case source_code_paths LIBRARY_SOURCE_CODE (disk w1) of
                Inl e \<Rightarrow> (Inl e, w1)
              | Inr paths \<Rightarrow>
                  (Inr \<lparr>name = ''Stemmer'', sources = [''src/Stemmer.pyx''] @ paths,
                        include_dirs = include_directories LIBRARY_SOURCE_CODE,
                        libraries = []\<rparr>, w1))))"

text \<open>
  The spec's link mode, read off an \<open>Extension\<close>: the system library is linked by name
  exactly when \<open>libraries\<close> names it.
\<close>

datatype link_mode = VENDORED | SYSTEM_LIBRARY

definition spec_linkMode :: "Extension \<Rightarrow> link_mode" where
  "spec_linkMode ext = (if ''stemmer'' \<in> set (libraries ext) then SYSTEM_LIBRARY else VENDORED)"

section \<open>\<open>BootstrapCommand\<close>\<close>

record BootstrapCommand =
  libstemmer_url :: string
  libstemmer_sha256 :: string

definition initialize_options :: BootstrapCommand where
  "initialize_options =
     \<lparr>libstemmer_url = DEFAULT_URI, libstemmer_sha256 = DEFAULT_CHECKSUM\<rparr>"

text \<open>
  \<open>user_options\<close>: setuptools assigns the value of \<open>--libstemmer-url=\<close> and of
  \<open>--libstemmer-sha256=\<close> to the attribute when the option is on the command line.
\<close>

definition user_options :: "string option \<Rightarrow> string option \<Rightarrow> BootstrapCommand \<Rightarrow> BootstrapCommand" where
  "user_options url sha self =
     (let self1 = (case url of None \<Rightarrow> self | Some u \<Rightarrow> self\<lparr>libstemmer_url := u\<rparr>)
      in case sha of None \<Rightarrow> self1 | Some c \<Rightarrow> self1\<lparr>libstemmer_sha256 := c\<rparr>)"

definition finalize_options :: "BootstrapCommand \<Rightarrow> BootstrapCommand" where
  "finalize_options self = self"

definition run :: "fetcher \<Rightarrow> BootstrapCommand \<Rightarrow> world \<Rightarrow> (error + unit) \<times> world" where
  "run dl self w =
     download dl LIBRARY_SOURCE_CODE (Some (libstemmer_url self)) (Some (libstemmer_sha256 self)) w"

text \<open>The \<open>bootstrap\<close> subcommand: the three steps of the command, in setuptools' order.\<close>

definition bootstrap :: "fetcher \<Rightarrow> string option \<Rightarrow> string option \<Rightarrow> world \<Rightarrow> (error + unit) \<times> world" where
  "bootstrap dl url sha w = run dl (finalize_options (user_options url sha initialize_options)) w"

section \<open>Marker removal, as a scan\<close>

text \<open>
  Removing every space-then-backslash pair, scanning from the left: what
  \<open>replace(' \\', '')\<close> is said to do, to compare with \<open>str_replace\<close>.
\<close>

fun drop_markers :: "string \<Rightarrow> string" where
  "drop_markers (a # b # cs) =
     (if a = CHR 0x20 \<and> b = CHR 0x5C then drop_markers cs else a # drop_markers (b # cs))"
| "drop_markers cs = cs"

fun has_marker :: "string \<Rightarrow> bool" where
  "has_marker (a # b # cs) = ((a = CHR 0x20 \<and> b = CHR 0x5C) \<or> has_marker (b # cs))"
| "has_marker cs = False"

section \<open>Example inputs\<close>

definition manifest_disk :: "string \<Rightarrow> (string \<rightharpoonup> node)" where
  "manifest_disk text =
     [''libstemmer_c-3.0.0'' \<mapsto> Dir,
      ''libstemmer_c-3.0.0/mkinc_utf8.mak'' \<mapsto> File text]"

definition example_manifest :: string where
  "example_manifest =
     ''src_c/stem_UTF_8_danish.c '' @ [CHR 0x5C, CHR 0x0A] @
     ''src_c/stem_UTF_8_dutch.c'' @ [CHR 0x0A] @
     ''examples/batch_stemmer.c'' @ [CHR 0x0A]"

definition example_world :: "(string \<rightharpoonup> node) \<Rightarrow> world" where
  "example_world d =
     \<lparr>disk = d, remote = [DEFAULT_URI \<mapsto> ''archive''], requests = [], extracted = []\<rparr>"

section \<open>Lemmas on strings, paths and the manifest scan\<close>

lemma endswith_rev: "endswith s x = (take (length x) (rev s) = rev x)"
proof
  assume "endswith s x"
  then have l: "length x \<le> length s" and d: "drop (length s - length x) s = x"
    by (simp_all add: endswith_def)
  have "rev x = rev (drop (length s - length x) s)" using d by simp
  also have "\<dots> = take (length x) (rev s)" using l by (simp add: rev_drop)
  finally show "take (length x) (rev s) = rev x" by simp
next
  assume a: "take (length x) (rev s) = rev x"
  then have "length (take (length x) (rev s)) = length (rev x)" by simp
  then have l: "length x \<le> length s" by simp
  have "rev (drop (length s - length x) s) = take (length x) (rev s)"
    using l by (simp add: rev_drop)
  then have "rev (drop (length s - length x) s) = rev x" using a by simp
  then have "drop (length s - length x) s = x" by (simp only: rev_is_rev_conv)
  then show "endswith s x" using l by (simp add: endswith_def)
qed

lemma snd_path_split: "snd (path_split p) = rev (takeWhile (\<lambda>x. x \<noteq> sep) (rev p))"
proof -
  let ?t = "takeWhile (\<lambda>x. x \<noteq> sep) (rev p)"
  have "rev p = ?t @ dropWhile (\<lambda>x. x \<noteq> sep) (rev p)" by simp
  then have "p = rev (dropWhile (\<lambda>x. x \<noteq> sep) (rev p)) @ rev ?t"
    by (metis rev_append rev_rev_ident)
  then have "drop (length p - length ?t) p = rev ?t"
    by (metis append_eq_conv_conj length_append length_rev add_diff_cancel_right')
  then show ?thesis by (simp add: path_split_def Let_def rfind_succ_def)
qed

lemma endswith_c_tail: "endswith (snd (path_split p)) ''.c'' = endswith p ''.c''"
proof -
  have "take (length ''.c'') (takeWhile (\<lambda>x. x \<noteq> sep) (rev p)) = rev ''.c''
          \<longleftrightarrow> take (length ''.c'') (rev p) = rev ''.c''"
    by (cases "rev p"; simp add: sep_def; cases "tl (rev p)"; auto simp: sep_def split: if_splits)
  then show ?thesis by (simp only: endswith_rev snd_path_split rev_rev_ident)
qed

lemma set_scan_lines:
  "set (scan_lines self acc ls) =
     set acc \<union> {path_join (directory self) (clean_line l) | l.
        l \<in> set ls \<and> endswith (clean_line l) ''.c'' \<and>
        fst (path_split (clean_line l)) \<in> set LIBRARY_CORE_DIRS}"
proof (induction ls arbitrary: acc)
  case Nil
  then show ?case by simp
next
  case (Cons l ls)
  show ?case
    by (simp only: scan_lines.simps Let_def Cons.IH split: if_splits) (auto simp: set_add_def)
qed

lemma distinct_scan_lines: "distinct acc \<Longrightarrow> distinct (scan_lines self acc ls)"
  by (induction ls arbitrary: acc) (auto simp: Let_def set_add_def)

lemma source_code_paths_File:
  "d (manifest_file_path self) = Some (File body) \<Longrightarrow>
     source_code_paths self d = Inr (scan_lines self [] (file_lines [] body))"
  by (simp add: source_code_paths_def iter_manifest_lines_def open_read_def)

lemma source_code_paths_Inr:
  "source_code_paths self d = Inr ps \<Longrightarrow>
     \<exists>body. d (manifest_file_path self) = Some (File body) \<and>
            ps = scan_lines self [] (file_lines [] body)"
  by (auto simp: source_code_paths_def iter_manifest_lines_def open_read_def
           split: option.splits node.splits sum.splits)

lemmas eval_defs =
  source_code_paths_def iter_manifest_lines_def open_read_def manifest_file_path_def
  LIBRARY_SOURCE_CODE_def libstemmer_c_version_def version_str_def path_join_def
  startswith_def endswith_def sep_def manifest_disk_def example_manifest_def clean_line_def
  strip_def isspace_def path_split_def rfind_succ_def rstrip_sep_def LIBRARY_CORE_DIRS_def
  set_add_def Let_def

lemma example_resolved:
  "source_code_paths LIBRARY_SOURCE_CODE (manifest_disk example_manifest) =
     Inr [''libstemmer_c-3.0.0/src_c/stem_UTF_8_danish.c'',
          ''libstemmer_c-3.0.0/src_c/stem_UTF_8_dutch.c'']"
  by (simp add: eval_defs)

lemma str_replace_marker: "str_replace [CHR 0x20, CHR 0x5C] [] s = drop_markers s"
  by (induction s rule: drop_markers.induct) (simp_all add: startswith_def)

lemma drop_markers_append:
  "drop_markers (u @ CHR 0x20 # CHR 0x5C # v) = drop_markers u @ drop_markers v"
  by (induction u rule: drop_markers.induct) auto

lemma has_marker_iff: "has_marker s = (\<exists>u v. s = u @ CHR 0x20 # CHR 0x5C # v)"
proof (induction s rule: has_marker.induct)
  case (1 a b cs)
  show ?case
  proof
    assume "has_marker (a # b # cs)"
    then consider "a = CHR 0x20 \<and> b = CHR 0x5C" | "has_marker (b # cs)" by auto
    then show "\<exists>u v. a # b # cs = u @ CHR 0x20 # CHR 0x5C # v"
    proof cases
      case 1
      then have "a # b # cs = [] @ CHR 0x20 # CHR 0x5C # cs" by simp
      then show ?thesis by blast
    next
      case 2
      with "1.IH" obtain u v where "b # cs = u @ CHR 0x20 # CHR 0x5C # v" by blast
      then have "a # b # cs = (a # u) @ CHR 0x20 # CHR 0x5C # v" by simp
      then show ?thesis by blast
    qed
  next
    assume "\<exists>u v. a # b # cs = u @ CHR 0x20 # CHR 0x5C # v"
    then obtain u v where e: "a # b # cs = u @ CHR 0x20 # CHR 0x5C # v" by blast
    show "has_marker (a # b # cs)"
    proof (cases u)
      case Nil
      with e show ?thesis by simp
    next
      case (Cons x u')
      with e have "b # cs = u' @ CHR 0x20 # CHR 0x5C # v" by simp
      with "1.IH" have "has_marker (b # cs)" by blast
      then show ?thesis by simp
    qed
  qed
qed (auto simp: append_eq_Cons_conv)

lemma drop_markers_absent: "\<not> has_marker s \<Longrightarrow> drop_markers s = s"
  by (induction s rule: drop_markers.induct) auto

lemma head_path_split:
  "take (rfind_succ sep p) p = rev (dropWhile (\<lambda>x. x \<noteq> sep) (rev p))"
proof -
  let ?t = "takeWhile (\<lambda>x. x \<noteq> sep) (rev p)"
  let ?d = "dropWhile (\<lambda>x. x \<noteq> sep) (rev p)"
  have "rev p = ?t @ ?d" by simp
  then have e: "p = rev ?d @ rev ?t" by (metis rev_append rev_rev_ident)
  have "length p = length (rev ?d) + length ?t"
    by (subst e) (simp only: length_append length_rev)
  then have "length p - length ?t = length (rev ?d)" by simp
  then have "take (length p - length ?t) p = take (length (rev ?d)) (rev ?d @ rev ?t)"
    using e by simp
  then show ?thesis by (simp add: rfind_succ_def)
qed

lemma core_dir_prefix:
  assumes c: "fst (path_split p) = c" and ne: "c \<noteq> []" and ns: "sep \<notin> set c"
  shows "startswith p (c @ [sep])"
proof -
  let ?d = "dropWhile (\<lambda>x. x \<noteq> sep) (rev p)"
  let ?head = "take (rfind_succ sep p) p"
  have h: "?head = rev ?d" by (rule head_path_split)
  have f: "c = (if ?head \<noteq> [] \<and> ?head \<noteq> replicate (length ?head) sep
                then rstrip_sep ?head else ?head)"
    using c by (simp add: path_split_def Let_def)
  have dne: "?d \<noteq> []"
  proof
    assume "?d = []"
    with h f have "c = []" by simp
    with ne show False by simp
  qed
  then have "hd ?d = sep" using hd_dropWhile [of "\<lambda>x. x \<noteq> sep" "rev p"] by simp
  with dne obtain R where d: "?d = sep # R" by (cases ?d) auto
  have "sep \<in> set ?head" using h d by simp
  with f ns have cr: "c = rstrip_sep ?head" by (auto split: if_splits)
  then have c2: "c = rev (dropWhile (\<lambda>x. x = sep) R)"
    using h d by (simp add: rstrip_sep_def)
  let ?S = "rev (takeWhile (\<lambda>x. x = sep) R)"
  have "R = takeWhile (\<lambda>x. x = sep) R @ dropWhile (\<lambda>x. x = sep) R" by simp
  then have "rev R = c @ ?S" using c2 by (metis rev_append)
  then have hd: "?head = c @ ?S @ [sep]" using h d by simp
  have "p = ?head @ drop (rfind_succ sep p) p" by simp
  then have p: "p = c @ (?S @ [sep]) @ drop (rfind_succ sep p) p" using hd by simp
  have all: "\<forall>x \<in> set ?S. x = sep" by (auto dest: set_takeWhileD)
  have "\<exists>r. ?S @ [sep] = sep # r"
  proof (cases ?S)
    case Nil
    then show ?thesis by simp
  next
    case (Cons x xs)
    with all have "x = sep" by (metis list.set_intros(1))
    with Cons show ?thesis by simp
  qed
  then obtain r where "?S @ [sep] = sep # r" by blast
  with p have "p = (c @ [sep]) @ r @ drop (rfind_succ sep p) p" by simp
  then have "take (length (c @ [sep])) p = c @ [sep]"
    by (metis append_eq_conv_conj)
  then show ?thesis by (simp add: startswith_def)
qed

lemma core_dirs_plain: "c \<in> set LIBRARY_CORE_DIRS \<Longrightarrow> c \<noteq> [] \<and> sep \<notin> set c"
  by (auto simp: LIBRARY_CORE_DIRS_def sep_def)

lemma path_join_under:
  assumes "startswith b (c @ [sep])" and "c \<noteq> []" and "sep \<notin> set c"
  shows "path_join a b = (if a = [] \<or> endswith a [sep] then a else a @ [sep]) @ b"
proof -
  from assms(1) have "take (length c + 1) b = c @ [sep]" by (simp add: startswith_def)
  then have "take 1 (take (length c + 1) b) = take 1 (c @ [sep])" by simp
  then have "take 1 b = [hd c]" using assms(2) by (cases c) (simp_all add: min_def)
  moreover have "hd c \<noteq> sep" using assms(2,3) by (cases c) auto
  ultimately have "\<not> startswith b [sep]" by (auto simp: startswith_def)
  then show ?thesis by (simp add: path_join_def)
qed

lemma acquisition_guard_present:
  "is_present_on_disk self (disk w) \<Longrightarrow> acquisition_guard dl self w = (Inr (), w)"
  by (simp add: acquisition_guard_def)

lemma directory_default: "directory LIBRARY_SOURCE_CODE = ''libstemmer_c-3.0.0''"
  by (simp add: LIBRARY_SOURCE_CODE_def libstemmer_c_version_def version_str_def)

lemma example_present:
  "is_present_on_disk LIBRARY_SOURCE_CODE (disk (example_world (manifest_disk body)))"
  by (simp add: is_present_on_disk_def directory_default example_world_def manifest_disk_def)

lemma include_directories_default:
  "include_directories LIBRARY_SOURCE_CODE = [''libstemmer_c-3.0.0/include'']"
  by (simp add: include_directories_def directory_default path_join_def startswith_def
        endswith_def sep_def)

lemma truthy_SYSTEM_LIBSTEMMER:
  "truthy (SYSTEM_LIBSTEMMER environ) =
     (\<exists>s. environ ''PYSTEMMER_SYSTEM_LIBSTEMMER'' = Some s \<and> s \<noteq> [])"
  by (simp add: SYSTEM_LIBSTEMMER_def environ_get_def split: option.splits)

lemma C_EXTENSION_system:
  "truthy (SYSTEM_LIBSTEMMER environ) \<Longrightarrow>
     C_EXTENSION dl environ w =
       (Inr \<lparr>name = ''Stemmer'', sources = [''src/Stemmer.pyx''],
              include_dirs = [], libraries = [''stemmer'']\<rparr>, w)"
  by (simp add: C_EXTENSION_def)

lemma C_EXTENSION_vendored_libraries:
  "\<not> truthy (SYSTEM_LIBSTEMMER environ) \<Longrightarrow> fst (C_EXTENSION dl environ w) = Inr ext \<Longrightarrow>
     libraries ext = []"
  by (auto simp: C_EXTENSION_def split: prod.splits sum.splits)

lemma DEFAULT_URI_value:
  "DEFAULT_URI = ''https://snowballstem.org/dist/libstemmer_c-3.0.0.tar.gz''"
  by (simp add: DEFAULT_URI_def libstemmer_c_version_def version_str_def)

lemma tarball_mismatch:
  "remote w url = Some bs \<Longrightarrow> lower (sha256 bs) \<noteq> lower expected \<Longrightarrow>
     download_and_extract_tarball sha256 untar url expected w =
       (Inl (ChecksumMismatchError expected (sha256 bs)), w\<lparr>requests := requests w @ [url]\<rparr>)"
  by (simp add: download_and_extract_tarball_def fetch_def verify_def Let_def)

lemma tarball_match:
  "remote w url = Some bs \<Longrightarrow> lower (sha256 bs) = lower expected \<Longrightarrow>
     download_and_extract_tarball sha256 untar url expected w =
       extract_archive untar bs (w\<lparr>requests := requests w @ [url]\<rparr>)"
  by (simp add: download_and_extract_tarball_def fetch_def verify_def Let_def)

lemma tarball_requests:
  "requests (snd (download_and_extract_tarball sha256 untar url expected w)) = requests w @ [url]"
  by (simp add: download_and_extract_tarball_def fetch_def verify_def extract_archive_def Let_def
           split: option.splits)

lemma example_remote: "remote (example_world d) DEFAULT_URI = Some ''archive''"
  by (simp add: example_world_def)

lemma DEFAULT_CHECKSUM_nonempty: "DEFAULT_CHECKSUM \<noteq> []"
  by (simp add: DEFAULT_CHECKSUM_def)

lemma DEFAULT_URI_nonempty: "DEFAULT_URI \<noteq> []"
  by (simp add: DEFAULT_URI_value)

lemma bootstrap_download:
  "bootstrap dl url sha w = dl (py_or url DEFAULT_URI) (py_or sha DEFAULT_CHECKSUM) w"
  by (cases url; cases sha)
     (simp_all add: bootstrap_def run_def finalize_options_def user_options_def
        initialize_options_def download_def py_or_def DEFAULT_URI_nonempty
        DEFAULT_CHECKSUM_nonempty)

section \<open>The claims\<close>

text \<open>
  C1. Manifest resolution is an exact filter. When the manifest can be read, the result
  is exactly the set of the paths \<open>directory/line\<close> for the manifest lines whose
  cleaned text has a filename component ending in \<open>.c\<close> and a directory component among
  \<open>LIBRARY_CORE_DIRS\<close>; it has no duplicates. For the three example lines (the first
  with a continuation marker, the third under \<open>examples\<close>) the result is the two
  \<open>src_c\<close> paths.
\<close>

theorem source_code_paths_exact_filter:
  "(d (manifest_file_path self) = Some (File body) \<longrightarrow>
      (\<exists>ps. source_code_paths self d = Inr ps \<and> distinct ps \<and>
         set ps = {path_join (directory self) (clean_line l) | l.
                     l \<in> set (file_lines [] body) \<and>
                     endswith (snd (path_split (clean_line l))) ''.c'' \<and>
                     fst (path_split (clean_line l)) \<in> set LIBRARY_CORE_DIRS})) \<and>
   (\<exists>ps. source_code_paths LIBRARY_SOURCE_CODE (manifest_disk example_manifest) = Inr ps \<and>
      set ps = {''libstemmer_c-3.0.0/src_c/stem_UTF_8_danish.c'',
                ''libstemmer_c-3.0.0/src_c/stem_UTF_8_dutch.c''})"
proof (intro conjI impI)
  assume m: "d (manifest_file_path self) = Some (File body)"
  let ?ps = "scan_lines self [] (file_lines [] body)"
  have "source_code_paths self d = Inr ?ps" using m by (rule source_code_paths_File)
  moreover have "distinct ?ps" by (rule distinct_scan_lines) simp
  moreover have "set ?ps = {path_join (directory self) (clean_line l) | l.
                     l \<in> set (file_lines [] body) \<and>
                     endswith (snd (path_split (clean_line l))) ''.c'' \<and>
                     fst (path_split (clean_line l)) \<in> set LIBRARY_CORE_DIRS}"
    by (simp only: set_scan_lines endswith_c_tail) simp
  ultimately show "\<exists>ps. source_code_paths self d = Inr ps \<and> distinct ps \<and>
         set ps = {path_join (directory self) (clean_line l) | l.
                     l \<in> set (file_lines [] body) \<and>
                     endswith (snd (path_split (clean_line l))) ''.c'' \<and>
                     fst (path_split (clean_line l)) \<in> set LIBRARY_CORE_DIRS}"
    by blast
next
  show "\<exists>ps. source_code_paths LIBRARY_SOURCE_CODE (manifest_disk example_manifest) = Inr ps \<and>
      set ps = {''libstemmer_c-3.0.0/src_c/stem_UTF_8_danish.c'',
                ''libstemmer_c-3.0.0/src_c/stem_UTF_8_dutch.c''}"
    by (simp add: example_resolved)
qed

theorem source_code_paths_exact_filter_witness:
  "manifest_disk ''runtime/api.c'' (manifest_file_path LIBRARY_SOURCE_CODE) = Some (File ''runtime/api.c'') \<and>
   (\<exists>ps. source_code_paths LIBRARY_SOURCE_CODE (manifest_disk ''runtime/api.c'') = Inr ps \<and> distinct ps \<and>
      set ps = {path_join (directory LIBRARY_SOURCE_CODE) (clean_line l) | l.
                  l \<in> set (file_lines [] ''runtime/api.c'') \<and>
                  endswith (snd (path_split (clean_line l))) ''.c'' \<and>
                  fst (path_split (clean_line l)) \<in> set LIBRARY_CORE_DIRS})"
proof -
  have h: "manifest_disk ''runtime/api.c'' (manifest_file_path LIBRARY_SOURCE_CODE) = Some (File ''runtime/api.c'')"
    by (simp add: eval_defs)
  from source_code_paths_exact_filter
    [where d = "manifest_disk ''runtime/api.c''" and self = LIBRARY_SOURCE_CODE
       and body = "''runtime/api.c''"] h
  show ?thesis by blast
qed

text \<open>
  C10. The parser removes every space-then-backslash pair of the stripped line, wherever
  it stands: cleaning equals the left-to-right scan \<open>drop_markers\<close>; around any
  occurrence the result is the cleaned left part followed by the cleaned right part; a
  stripped line without the pair is left as it is. So a line with the pair inside its
  path is resolved under the altered name, and a backslash with no space before it
  stays, which makes the line fail the \<open>.c\<close> test.
\<close>

theorem clean_line_removes_every_marker:
  "clean_line l = drop_markers (strip l) \<and>
   (strip l = u @ CHR 0x20 # CHR 0x5C # v \<longrightarrow> clean_line l = drop_markers u @ drop_markers v) \<and>
   (\<not> has_marker (strip l) \<longrightarrow> clean_line l = strip l) \<and>
   source_code_paths LIBRARY_SOURCE_CODE
       (manifest_disk (''src_c/ab '' @ [CHR 0x5C] @ ''cd.c'' @ [CHR 0x0A])) =
     Inr [''libstemmer_c-3.0.0/src_c/abcd.c''] \<and>
   clean_line (''src_c/a.c'' @ [CHR 0x5C, CHR 0x0A]) = ''src_c/a.c'' @ [CHR 0x5C] \<and>
   source_code_paths LIBRARY_SOURCE_CODE (manifest_disk (''src_c/a.c'' @ [CHR 0x5C, CHR 0x0A])) = Inr []"
proof (intro conjI impI)
  show c: "clean_line l = drop_markers (strip l)"
    by (simp only: clean_line_def str_replace_marker)
  show "clean_line l = drop_markers u @ drop_markers v" if "strip l = u @ CHR 0x20 # CHR 0x5C # v"
    using that by (simp only: c drop_markers_append)
  show "clean_line l = strip l" if "\<not> has_marker (strip l)"
    using that by (simp add: c drop_markers_absent)
  show "source_code_paths LIBRARY_SOURCE_CODE
       (manifest_disk (''src_c/ab '' @ [CHR 0x5C] @ ''cd.c'' @ [CHR 0x0A])) =
     Inr [''libstemmer_c-3.0.0/src_c/abcd.c'']"
    by (simp add: eval_defs)
  show "clean_line (''src_c/a.c'' @ [CHR 0x5C, CHR 0x0A]) = ''src_c/a.c'' @ [CHR 0x5C]"
    by (simp add: eval_defs)
  show "source_code_paths LIBRARY_SOURCE_CODE (manifest_disk (''src_c/a.c'' @ [CHR 0x5C, CHR 0x0A])) = Inr []"
    by (simp add: eval_defs)
qed

theorem clean_line_removes_every_marker_witness:
  "strip (''  src_c/x '' @ [CHR 0x5C] @ ''y.c '' @ [CHR 0x5C, CHR 0x0A]) =
      ''src_c/x'' @ CHR 0x20 # CHR 0x5C # (''y.c '' @ [CHR 0x5C]) \<and>
   clean_line (''  src_c/x '' @ [CHR 0x5C] @ ''y.c '' @ [CHR 0x5C, CHR 0x0A]) = ''src_c/xy.c'' \<and>
   \<not> has_marker (strip (''src_c/a.c'' @ [CHR 0x5C, CHR 0x0A])) \<and>
   clean_line (''src_c/a.c'' @ [CHR 0x5C, CHR 0x0A]) = strip (''src_c/a.c'' @ [CHR 0x5C, CHR 0x0A])"
proof -
  let ?l = "''  src_c/x '' @ [CHR 0x5C] @ ''y.c '' @ [CHR 0x5C, CHR 0x0A]"
  let ?m = "''src_c/a.c'' @ [CHR 0x5C, CHR 0x0A]"
  have h1: "strip ?l = ''src_c/x'' @ CHR 0x20 # CHR 0x5C # (''y.c '' @ [CHR 0x5C])"
    by (simp add: strip_def isspace_def)
  have h2: "\<not> has_marker (strip ?m)"
    by (simp add: strip_def isspace_def)
  from clean_line_removes_every_marker
         [where l = ?l and u = "''src_c/x''" and v = "''y.c '' @ [CHR 0x5C]"] h1
  have "clean_line ?l = drop_markers ''src_c/x'' @ drop_markers (''y.c '' @ [CHR 0x5C])"
    by blast
  then have r1: "clean_line ?l = ''src_c/xy.c''" by simp
  from clean_line_removes_every_marker [where l = ?m] h2
  have r2: "clean_line ?m = strip ?m" by blast
  from h1 r1 h2 r2 show ?thesis by blast
qed

text \<open>
  C6. When nothing is at the manifest's path, \<open>mkinc_utf8.mak\<close> under the
  distribution directory, resolution fails with the error of opening the file (Python's
  \<open>FileNotFoundError\<close>, the failure the spec names ManifestNotFoundError); it does not
  return an empty set.
\<close>

theorem source_code_paths_manifest_absent:
  "d (manifest_file_path self) = None \<Longrightarrow>
     source_code_paths self d = Inl (FileNotFoundError (manifest_file_path self)) \<and>
     source_code_paths self d \<noteq> Inr [] \<and>
     manifest_file_path self = path_join (directory self) ''mkinc_utf8.mak''"
  by (simp add: source_code_paths_def iter_manifest_lines_def open_read_def manifest_file_path_def)

theorem source_code_paths_manifest_absent_witness:
  "[''libstemmer_c-3.0.0'' \<mapsto> Dir] (manifest_file_path LIBRARY_SOURCE_CODE) = None \<and>
   manifest_file_path LIBRARY_SOURCE_CODE = ''libstemmer_c-3.0.0/mkinc_utf8.mak'' \<and>
   source_code_paths LIBRARY_SOURCE_CODE [''libstemmer_c-3.0.0'' \<mapsto> Dir] =
     Inl (FileNotFoundError ''libstemmer_c-3.0.0/mkinc_utf8.mak'')"
proof -
  have p: "manifest_file_path LIBRARY_SOURCE_CODE = ''libstemmer_c-3.0.0/mkinc_utf8.mak''"
    by (simp add: eval_defs)
  have h: "[''libstemmer_c-3.0.0'' \<mapsto> Dir] (manifest_file_path LIBRARY_SOURCE_CODE) = None"
    by (simp add: p)
  from source_code_paths_manifest_absent
         [where d = "[''libstemmer_c-3.0.0'' \<mapsto> Dir]" and self = LIBRARY_SOURCE_CODE] p h
  show ?thesis by simp
qed

text \<open>
  C7. Amended: every resolved path lies under the distribution directory by name. It is
  the directory, a separator unless the directory is empty or ends with one, and the
  cleaned text of a manifest line that starts with a core directory and a separator and
  ends in \<open>.c\<close>. The resolver does not look on the disk for the files it names.
\<close>

theorem resolved_paths_under_directory:
  "source_code_paths self d = Inr ps \<Longrightarrow> p \<in> set ps \<Longrightarrow>
     \<exists>body l c. d (manifest_file_path self) = Some (File body) \<and>
        l \<in> set (file_lines [] body) \<and> c \<in> set LIBRARY_CORE_DIRS \<and>
        startswith (clean_line l) (c @ [sep]) \<and> endswith (clean_line l) ''.c'' \<and>
        p = (if directory self = [] \<or> endswith (directory self) [sep]
             then directory self else directory self @ [sep]) @ clean_line l"
proof -
  assume r: "source_code_paths self d = Inr ps" and p: "p \<in> set ps"
  from source_code_paths_Inr [OF r] obtain body
    where m: "d (manifest_file_path self) = Some (File body)"
      and ps: "ps = scan_lines self [] (file_lines [] body)" by blast
  from p ps have "p \<in> {path_join (directory self) (clean_line l) | l.
        l \<in> set (file_lines [] body) \<and> endswith (clean_line l) ''.c'' \<and>
        fst (path_split (clean_line l)) \<in> set LIBRARY_CORE_DIRS}"
    by (simp only: set_scan_lines) simp
  then obtain l where l: "l \<in> set (file_lines [] body)"
      and e: "endswith (clean_line l) ''.c''"
      and c: "fst (path_split (clean_line l)) \<in> set LIBRARY_CORE_DIRS"
      and pj: "p = path_join (directory self) (clean_line l)" by blast
  let ?c = "fst (path_split (clean_line l))"
  from core_dirs_plain [OF c] have ne: "?c \<noteq> []" and ns: "sep \<notin> set ?c" by simp_all
  have s: "startswith (clean_line l) (?c @ [sep])"
    by (rule core_dir_prefix [OF refl ne ns])
  from path_join_under [OF s ne ns, of "directory self"] pj
  have "p = (if directory self = [] \<or> endswith (directory self) [sep]
             then directory self else directory self @ [sep]) @ clean_line l" by simp
  with m l c s e show ?thesis by blast
qed

theorem resolved_paths_under_directory_witness:
  "source_code_paths LIBRARY_SOURCE_CODE (manifest_disk example_manifest) =
     Inr [''libstemmer_c-3.0.0/src_c/stem_UTF_8_danish.c'',
          ''libstemmer_c-3.0.0/src_c/stem_UTF_8_dutch.c''] \<and>
   (\<exists>body l c. manifest_disk example_manifest (manifest_file_path LIBRARY_SOURCE_CODE) = Some (File body) \<and>
        l \<in> set (file_lines [] body) \<and> c \<in> set LIBRARY_CORE_DIRS \<and>
        startswith (clean_line l) (c @ [sep]) \<and> endswith (clean_line l) ''.c'' \<and>
        ''libstemmer_c-3.0.0/src_c/stem_UTF_8_dutch.c'' =
          (if directory LIBRARY_SOURCE_CODE = [] \<or> endswith (directory LIBRARY_SOURCE_CODE) [sep]
           then directory LIBRARY_SOURCE_CODE else directory LIBRARY_SOURCE_CODE @ [sep]) @ clean_line l)"
proof -
  have m: "''libstemmer_c-3.0.0/src_c/stem_UTF_8_dutch.c'' \<in>
             set [''libstemmer_c-3.0.0/src_c/stem_UTF_8_danish.c'',
                  ''libstemmer_c-3.0.0/src_c/stem_UTF_8_dutch.c'']" by simp
  from resolved_paths_under_directory [OF example_resolved m] example_resolved
  show ?thesis by blast
qed

theorem resolved_path_not_on_disk_counterexample:
  "source_code_paths LIBRARY_SOURCE_CODE (manifest_disk example_manifest) =
     Inr [''libstemmer_c-3.0.0/src_c/stem_UTF_8_danish.c'',
          ''libstemmer_c-3.0.0/src_c/stem_UTF_8_dutch.c''] \<and>
   manifest_disk example_manifest ''libstemmer_c-3.0.0/src_c/stem_UTF_8_danish.c'' = None"
  by (simp add: example_resolved) (simp add: manifest_disk_def)

text \<open>
  C2. Acquisition is idempotent. When the distribution directory is on the disk, the
  guarded acquisition returns at once with the world as it was, whatever the fetcher
  would do: no request is made, nothing is verified or extracted, the disk is
  unchanged; a second call after it does the same.
\<close>

theorem acquisition_guard_idempotent:
  "is_present_on_disk self (disk w) \<Longrightarrow>
     acquisition_guard dl self w = (Inr (), w) \<and>
     acquisition_guard dl' self (snd (acquisition_guard dl self w)) = (Inr (), w) \<and>
     requests (snd (acquisition_guard dl' self (snd (acquisition_guard dl self w)))) = requests w \<and>
     extracted (snd (acquisition_guard dl' self (snd (acquisition_guard dl self w)))) = extracted w \<and>
     disk (snd (acquisition_guard dl' self (snd (acquisition_guard dl self w)))) = disk w"
  by (simp add: acquisition_guard_def)

theorem acquisition_guard_idempotent_witness:
  "is_present_on_disk LIBRARY_SOURCE_CODE (disk (example_world (manifest_disk example_manifest))) \<and>
   (\<forall>sha256 untar.
      acquisition_guard (download_and_extract_tarball sha256 untar) LIBRARY_SOURCE_CODE
        (example_world (manifest_disk example_manifest)) =
      (Inr (), example_world (manifest_disk example_manifest))) \<and>
   requests (example_world (manifest_disk example_manifest)) = []"
proof -
  have "acquisition_guard (download_and_extract_tarball sha256 untar) LIBRARY_SOURCE_CODE
        (example_world (manifest_disk example_manifest)) =
      (Inr (), example_world (manifest_disk example_manifest))" for sha256 untar
    using acquisition_guard_idempotent [OF example_present, of _ example_manifest] by blast
  then show ?thesis using example_present by (simp add: example_world_def)
qed

text \<open>
  C3. Composition is mode-exclusive. With a truthy toggle the \<open>Extension\<close> has only the
  binding's own source, links the system library \<open>stemmer\<close> by name, and the world is
  unchanged whatever the fetcher and the disk are: nothing is acquired, resolved or
  requested. With a falsy toggle and the directory present the world is unchanged as
  well, and the result is that of manifest resolution: its error, or the binding's
  source followed by the resolved paths, with the include directory.
\<close>

theorem C_EXTENSION_mode_exclusive:
  "(truthy (SYSTEM_LIBSTEMMER environ) \<longrightarrow>
      C_EXTENSION dl environ w =
        (Inr \<lparr>name = ''Stemmer'', sources = [''src/Stemmer.pyx''],
               include_dirs = [], libraries = [''stemmer'']\<rparr>, w) \<and>
      (\<exists>ext. fst (C_EXTENSION dl environ w) = Inr ext \<and> spec_linkMode ext = SYSTEM_LIBRARY)) \<and>
   (\<not> truthy (SYSTEM_LIBSTEMMER environ) \<and> is_present_on_disk LIBRARY_SOURCE_CODE (disk w) \<longrightarrow>
      snd (C_EXTENSION dl environ w) = w \<and>
      (\<forall>e. source_code_paths LIBRARY_SOURCE_CODE (disk w) = Inl e \<longrightarrow>
           fst (C_EXTENSION dl environ w) = Inl e) \<and>
      (\<forall>ps. source_code_paths LIBRARY_SOURCE_CODE (disk w) = Inr ps \<longrightarrow>
           fst (C_EXTENSION dl environ w) =
             Inr \<lparr>name = ''Stemmer'', sources = ''src/Stemmer.pyx'' # ps,
                   include_dirs = [''libstemmer_c-3.0.0/include''], libraries = []\<rparr>))"
proof (intro conjI impI)
  assume t: "truthy (SYSTEM_LIBSTEMMER environ)"
  show "C_EXTENSION dl environ w =
        (Inr \<lparr>name = ''Stemmer'', sources = [''src/Stemmer.pyx''],
               include_dirs = [], libraries = [''stemmer'']\<rparr>, w)"
    using t by (rule C_EXTENSION_system)
  then show "\<exists>ext. fst (C_EXTENSION dl environ w) = Inr ext \<and> spec_linkMode ext = SYSTEM_LIBRARY"
    by (simp add: spec_linkMode_def)
next
  assume a: "\<not> truthy (SYSTEM_LIBSTEMMER environ) \<and> is_present_on_disk LIBRARY_SOURCE_CODE (disk w)"
  then have g: "acquisition_guard dl LIBRARY_SOURCE_CODE w = (Inr (), w)"
    by (simp add: acquisition_guard_present)
  show "snd (C_EXTENSION dl environ w) = w"
    using a g by (simp add: C_EXTENSION_def split: sum.splits)
  show "\<forall>e. source_code_paths LIBRARY_SOURCE_CODE (disk w) = Inl e \<longrightarrow>
           fst (C_EXTENSION dl environ w) = Inl e"
    using a g by (simp add: C_EXTENSION_def)
  show "\<forall>ps. source_code_paths LIBRARY_SOURCE_CODE (disk w) = Inr ps \<longrightarrow>
           fst (C_EXTENSION dl environ w) =
             Inr \<lparr>name = ''Stemmer'', sources = ''src/Stemmer.pyx'' # ps,
                   include_dirs = [''libstemmer_c-3.0.0/include''], libraries = []\<rparr>"
    using a g by (simp add: C_EXTENSION_def include_directories_default)
qed

theorem C_EXTENSION_mode_exclusive_witness:
  "truthy (SYSTEM_LIBSTEMMER [''PYSTEMMER_SYSTEM_LIBSTEMMER'' \<mapsto> ''1'']) \<and>
   (\<forall>dl. C_EXTENSION dl [''PYSTEMMER_SYSTEM_LIBSTEMMER'' \<mapsto> ''1''] (example_world Map.empty) =
        (Inr \<lparr>name = ''Stemmer'', sources = [''src/Stemmer.pyx''],
               include_dirs = [], libraries = [''stemmer'']\<rparr>, example_world Map.empty)) \<and>
   \<not> truthy (SYSTEM_LIBSTEMMER Map.empty) \<and>
   is_present_on_disk LIBRARY_SOURCE_CODE (disk (example_world (manifest_disk example_manifest))) \<and>
   (\<forall>dl. C_EXTENSION dl Map.empty (example_world (manifest_disk example_manifest)) =
        (Inr \<lparr>name = ''Stemmer'',
               sources = [''src/Stemmer.pyx'',
                          ''libstemmer_c-3.0.0/src_c/stem_UTF_8_danish.c'',
                          ''libstemmer_c-3.0.0/src_c/stem_UTF_8_dutch.c''],
               include_dirs = [''libstemmer_c-3.0.0/include''], libraries = []\<rparr>,
         example_world (manifest_disk example_manifest))) \<and>
   (\<forall>dl. fst (C_EXTENSION dl Map.empty (example_world [''libstemmer_c-3.0.0'' \<mapsto> Dir])) =
        Inl (FileNotFoundError ''libstemmer_c-3.0.0/mkinc_utf8.mak''))"
proof -
  let ?on = "[''PYSTEMMER_SYSTEM_LIBSTEMMER'' \<mapsto> ''1'']"
  let ?w = "example_world (manifest_disk example_manifest)"
  let ?v = "example_world [''libstemmer_c-3.0.0'' \<mapsto> Dir]"
  have t: "truthy (SYSTEM_LIBSTEMMER ?on)"
    by (simp add: SYSTEM_LIBSTEMMER_def environ_get_def)
  have f: "\<not> truthy (SYSTEM_LIBSTEMMER Map.empty)"
    by (simp add: SYSTEM_LIBSTEMMER_def environ_get_def)
  have p: "is_present_on_disk LIBRARY_SOURCE_CODE (disk ?w)" by (rule example_present)
  have pv: "is_present_on_disk LIBRARY_SOURCE_CODE (disk ?v)"
    by (simp add: is_present_on_disk_def directory_default example_world_def)
  have r: "source_code_paths LIBRARY_SOURCE_CODE (disk ?w) =
             Inr [''libstemmer_c-3.0.0/src_c/stem_UTF_8_danish.c'',
                  ''libstemmer_c-3.0.0/src_c/stem_UTF_8_dutch.c'']"
    by (simp add: example_world_def example_resolved)
  have rv: "source_code_paths LIBRARY_SOURCE_CODE (disk ?v) =
             Inl (FileNotFoundError ''libstemmer_c-3.0.0/mkinc_utf8.mak'')"
    by (simp add: example_world_def eval_defs)
  have a: "C_EXTENSION dl ?on (example_world Map.empty) =
        (Inr \<lparr>name = ''Stemmer'', sources = [''src/Stemmer.pyx''],
               include_dirs = [], libraries = [''stemmer'']\<rparr>, example_world Map.empty)" for dl
    using C_EXTENSION_mode_exclusive [where environ = ?on and dl = dl and w = "example_world Map.empty"] t
    by blast
  have b: "C_EXTENSION dl Map.empty ?w =
        (Inr \<lparr>name = ''Stemmer'',
               sources = [''src/Stemmer.pyx'',
                          ''libstemmer_c-3.0.0/src_c/stem_UTF_8_danish.c'',
                          ''libstemmer_c-3.0.0/src_c/stem_UTF_8_dutch.c''],
               include_dirs = [''libstemmer_c-3.0.0/include''], libraries = []\<rparr>, ?w)" for dl
    using C_EXTENSION_mode_exclusive [where environ = Map.empty and dl = dl and w = ?w] f p r
    by (simp add: prod_eq_iff)
  have c: "fst (C_EXTENSION dl Map.empty ?v) =
        Inl (FileNotFoundError ''libstemmer_c-3.0.0/mkinc_utf8.mak'')" for dl
    using C_EXTENSION_mode_exclusive [where environ = Map.empty and dl = dl and w = ?v] f pv rv
    by simp
  show ?thesis by (intro conjI allI) (rule t a f p b c)+
qed

text \<open>
  C9. The toggle is the truthiness of the string in \<open>PYSTEMMER_SYSTEM_LIBSTEMMER\<close>: it
  is truthy exactly when the variable is set to a non-empty string, so \<open>0\<close>, \<open>false\<close>
  and \<open>no\<close> select the system library, and an unset or empty variable selects the
  vendored sources.
\<close>

theorem SYSTEM_LIBSTEMMER_string_truthiness:
  "truthy (SYSTEM_LIBSTEMMER environ) =
      (\<exists>s. environ ''PYSTEMMER_SYSTEM_LIBSTEMMER'' = Some s \<and> s \<noteq> []) \<and>
   truthy (SYSTEM_LIBSTEMMER [''PYSTEMMER_SYSTEM_LIBSTEMMER'' \<mapsto> ''0'']) \<and>
   truthy (SYSTEM_LIBSTEMMER [''PYSTEMMER_SYSTEM_LIBSTEMMER'' \<mapsto> ''false'']) \<and>
   truthy (SYSTEM_LIBSTEMMER [''PYSTEMMER_SYSTEM_LIBSTEMMER'' \<mapsto> ''no'']) \<and>
   \<not> truthy (SYSTEM_LIBSTEMMER Map.empty) \<and>
   \<not> truthy (SYSTEM_LIBSTEMMER [''PYSTEMMER_SYSTEM_LIBSTEMMER'' \<mapsto> []]) \<and>
   ((\<exists>s. environ ''PYSTEMMER_SYSTEM_LIBSTEMMER'' = Some s \<and> s \<noteq> []) \<longrightarrow>
      (\<exists>ext. fst (C_EXTENSION dl environ w) = Inr ext \<and> spec_linkMode ext = SYSTEM_LIBRARY)) \<and>
   ((environ ''PYSTEMMER_SYSTEM_LIBSTEMMER'' = None \<or>
     environ ''PYSTEMMER_SYSTEM_LIBSTEMMER'' = Some []) \<longrightarrow>
      (\<forall>ext. fst (C_EXTENSION dl environ w) = Inr ext \<longrightarrow> spec_linkMode ext = VENDORED))"
proof (intro conjI impI allI)
  show "truthy (SYSTEM_LIBSTEMMER environ) =
      (\<exists>s. environ ''PYSTEMMER_SYSTEM_LIBSTEMMER'' = Some s \<and> s \<noteq> [])"
    by (rule truthy_SYSTEM_LIBSTEMMER)
  show "\<exists>ext. fst (C_EXTENSION dl environ w) = Inr ext \<and> spec_linkMode ext = SYSTEM_LIBRARY"
    if "\<exists>s. environ ''PYSTEMMER_SYSTEM_LIBSTEMMER'' = Some s \<and> s \<noteq> []"
  proof -
    from that have "truthy (SYSTEM_LIBSTEMMER environ)" by (simp only: truthy_SYSTEM_LIBSTEMMER)
    then show ?thesis by (simp add: C_EXTENSION_system spec_linkMode_def)
  qed
  show "spec_linkMode ext = VENDORED"
    if "environ ''PYSTEMMER_SYSTEM_LIBSTEMMER'' = None \<or>
        environ ''PYSTEMMER_SYSTEM_LIBSTEMMER'' = Some []"
      and "fst (C_EXTENSION dl environ w) = Inr ext" for ext
  proof -
    from that(1) have "\<not> truthy (SYSTEM_LIBSTEMMER environ)"
      by (auto simp: truthy_SYSTEM_LIBSTEMMER)
    from C_EXTENSION_vendored_libraries [OF this that(2)]
    show ?thesis by (simp add: spec_linkMode_def)
  qed
qed (simp_all add: SYSTEM_LIBSTEMMER_def environ_get_def)

theorem SYSTEM_LIBSTEMMER_string_truthiness_witness:
  "[''PYSTEMMER_SYSTEM_LIBSTEMMER'' \<mapsto> ''false''] ''PYSTEMMER_SYSTEM_LIBSTEMMER'' = Some ''false'' \<and>
   (\<forall>dl. \<exists>ext. fst (C_EXTENSION dl [''PYSTEMMER_SYSTEM_LIBSTEMMER'' \<mapsto> ''false'']
                       (example_world Map.empty)) = Inr ext \<and>
               spec_linkMode ext = SYSTEM_LIBRARY) \<and>
   [''PYSTEMMER_SYSTEM_LIBSTEMMER'' \<mapsto> []] ''PYSTEMMER_SYSTEM_LIBSTEMMER'' = Some [] \<and>
   (\<forall>dl. \<exists>ext. fst (C_EXTENSION dl [''PYSTEMMER_SYSTEM_LIBSTEMMER'' \<mapsto> []]
                       (example_world (manifest_disk example_manifest))) = Inr ext \<and>
               spec_linkMode ext = VENDORED)"
proof -
  let ?k = "''PYSTEMMER_SYSTEM_LIBSTEMMER''"
  let ?w = "example_world (manifest_disk example_manifest)"
  have h1: "\<exists>s. [?k \<mapsto> ''false''] ?k = Some s \<and> s \<noteq> []" by simp
  have h2: "[?k \<mapsto> []] ?k = None \<or> [?k \<mapsto> []] ?k = Some []" by simp
  have a: "\<exists>ext. fst (C_EXTENSION dl [?k \<mapsto> ''false''] (example_world Map.empty)) = Inr ext \<and>
               spec_linkMode ext = SYSTEM_LIBRARY" for dl
    using SYSTEM_LIBSTEMMER_string_truthiness
            [where environ = "[?k \<mapsto> ''false'']" and dl = dl and w = "example_world Map.empty"] h1
    by simp
  have f: "\<not> truthy (SYSTEM_LIBSTEMMER [?k \<mapsto> []])"
    by (simp add: SYSTEM_LIBSTEMMER_def environ_get_def)
  have g: "acquisition_guard dl LIBRARY_SOURCE_CODE ?w = (Inr (), ?w)" for dl
    by (rule acquisition_guard_present [OF example_present])
  have r: "source_code_paths LIBRARY_SOURCE_CODE (disk ?w) =
             Inr [''libstemmer_c-3.0.0/src_c/stem_UTF_8_danish.c'',
                  ''libstemmer_c-3.0.0/src_c/stem_UTF_8_dutch.c'']"
    by (simp add: example_world_def example_resolved)
  have e: "\<exists>ext. fst (C_EXTENSION dl [?k \<mapsto> []] ?w) = Inr ext" for dl
    using f g [of dl] r by (simp add: C_EXTENSION_def)
  have b: "\<exists>ext. fst (C_EXTENSION dl [?k \<mapsto> []] ?w) = Inr ext \<and> spec_linkMode ext = VENDORED" for dl
    using SYSTEM_LIBSTEMMER_string_truthiness
            [where environ = "[?k \<mapsto> []]" and dl = dl and w = ?w] h2 e [of dl]
    by auto
  show ?thesis by (intro conjI allI) (simp, rule a, simp, rule b)
qed

text \<open>
  C4. Integrity verification, for the verifier modelled from the spec. The digest of the
  fetched bytes is compared with the expected digest, the caller's or the default,
  without regard to case. When they differ, as they do for a corrupted archive unless
  it collides with the expected one under SHA-256, the result is
  \<open>ChecksumMismatchError\<close> with the expected and the computed digest, whatever the
  extractor is: nothing is handed to it and the disk is unchanged. When they agree the
  bytes go to the extractor.
\<close>

theorem checksum_mismatch_never_reaches_extractor:
  "(remote w url = Some bs \<and> lower (digest bs) \<noteq> lower expected \<longrightarrow>
      download_and_extract_tarball digest untar url expected w =
        (Inl (ChecksumMismatchError expected (digest bs)), w\<lparr>requests := requests w @ [url]\<rparr>) \<and>
      extracted (snd (download_and_extract_tarball digest untar url expected w)) = extracted w \<and>
      disk (snd (download_and_extract_tarball digest untar url expected w)) = disk w) \<and>
   (remote w url = Some bs \<and> lower (digest bs) = lower expected \<longrightarrow>
      download_and_extract_tarball digest untar url expected w =
        extract_archive untar bs (w\<lparr>requests := requests w @ [url]\<rparr>) \<and>
      extracted (snd (download_and_extract_tarball digest untar url expected w)) =
        extracted w @ [bs]) \<and>
   (remote w (py_or arg_url DEFAULT_URI) = Some bs \<and>
    lower (digest bs) \<noteq> lower (py_or checksum DEFAULT_CHECKSUM) \<longrightarrow>
      fst (download (download_and_extract_tarball digest untar) self arg_url checksum w) =
        Inl (ChecksumMismatchError (py_or checksum DEFAULT_CHECKSUM) (digest bs)) \<and>
      extracted (snd (download (download_and_extract_tarball digest untar) self arg_url checksum w)) =
        extracted w)"
proof (intro conjI impI)
  assume a: "remote w url = Some bs \<and> lower (digest bs) \<noteq> lower expected"
  then show e: "download_and_extract_tarball digest untar url expected w =
        (Inl (ChecksumMismatchError expected (digest bs)), w\<lparr>requests := requests w @ [url]\<rparr>)"
    by (simp add: tarball_mismatch)
  show "extracted (snd (download_and_extract_tarball digest untar url expected w)) = extracted w"
    by (simp add: e)
  show "disk (snd (download_and_extract_tarball digest untar url expected w)) = disk w"
    by (simp add: e)
next
  assume a: "remote w url = Some bs \<and> lower (digest bs) = lower expected"
  then show e: "download_and_extract_tarball digest untar url expected w =
        extract_archive untar bs (w\<lparr>requests := requests w @ [url]\<rparr>)"
    by (simp add: tarball_match)
  show "extracted (snd (download_and_extract_tarball digest untar url expected w)) =
        extracted w @ [bs]"
    by (simp add: e extract_archive_def Let_def split: option.splits)
next
  assume a: "remote w (py_or arg_url DEFAULT_URI) = Some bs \<and>
    lower (digest bs) \<noteq> lower (py_or checksum DEFAULT_CHECKSUM)"
  then have e: "download (download_and_extract_tarball digest untar) self arg_url checksum w =
      (Inl (ChecksumMismatchError (py_or checksum DEFAULT_CHECKSUM) (digest bs)),
       w\<lparr>requests := requests w @ [py_or arg_url DEFAULT_URI]\<rparr>)"
    by (simp add: download_def tarball_mismatch)
  show "fst (download (download_and_extract_tarball digest untar) self arg_url checksum w) =
        Inl (ChecksumMismatchError (py_or checksum DEFAULT_CHECKSUM) (digest bs))"
    by (simp add: e)
  show "extracted (snd (download (download_and_extract_tarball digest untar) self arg_url checksum w)) =
        extracted w"
    by (simp add: e)
qed

theorem checksum_mismatch_never_reaches_extractor_witness:
  "remote (example_world Map.empty) DEFAULT_URI = Some ''archive'' \<and>
   lower ''AB12'' \<noteq> lower ''ab13'' \<and>
   (\<forall>untar. download_and_extract_tarball (\<lambda>bs. ''AB12'') untar DEFAULT_URI ''ab13'' (example_world Map.empty) =
      (Inl (ChecksumMismatchError ''ab13'' ''AB12''),
       (example_world Map.empty)\<lparr>requests := [DEFAULT_URI]\<rparr>)) \<and>
   lower ''AB12'' = lower ''ab12'' \<and>
   (\<forall>untar. extracted (snd (download_and_extract_tarball (\<lambda>bs. ''AB12'') untar DEFAULT_URI ''ab12''
                (example_world Map.empty))) = [''archive''])"
proof -
  let ?w = "example_world Map.empty"
  have r: "remote ?w DEFAULT_URI = Some ''archive''" by (rule example_remote)
  have n: "lower ''AB12'' \<noteq> lower ''ab13''" by (simp add: lower_def lower_char_def)
  have y: "lower ''AB12'' = lower ''ab12''" by (simp add: lower_def lower_char_def)
  have q: "requests ?w = []" and x: "extracted ?w = []" by (simp_all add: example_world_def)
  have a: "download_and_extract_tarball (\<lambda>bs. ''AB12'') untar DEFAULT_URI ''ab13'' ?w =
      (Inl (ChecksumMismatchError ''ab13'' ''AB12''), ?w\<lparr>requests := [DEFAULT_URI]\<rparr>)" for untar
    using checksum_mismatch_never_reaches_extractor
            [where w = ?w and url = DEFAULT_URI and bs = "''archive''" and digest = "\<lambda>bs. ''AB12''"
               and expected = "''ab13''" and untar = untar] r n q
    by simp
  have b: "extracted (snd (download_and_extract_tarball (\<lambda>bs. ''AB12'') untar DEFAULT_URI ''ab12'' ?w)) =
      [''archive'']" for untar
    using checksum_mismatch_never_reaches_extractor
            [where w = ?w and url = DEFAULT_URI and bs = "''archive''" and digest = "\<lambda>bs. ''AB12''"
               and expected = "''ab12''" and untar = untar] r y x
    by (simp add: extract_archive_def Let_def split: option.splits)
  show ?thesis by (intro conjI allI) (rule r n a y b)+
qed

text \<open>
  C5. Amended: the \<open>bootstrap\<close> subcommand takes two optional overrides, the archive URL
  and the expected SHA-256, which default to the embedded constants, and its \<open>run\<close> step
  calls \<open>download\<close> with them without consulting the presence check: it makes the request
  for the archive also when the distribution directory is already on the disk. The
  presence check guards only the module-level acquisition.
\<close>

theorem bootstrap_downloads_unconditionally:
  "bootstrap dl url sha w = dl (py_or url DEFAULT_URI) (py_or sha DEFAULT_CHECKSUM) w \<and>
   (is_present_on_disk LIBRARY_SOURCE_CODE (disk w) \<longrightarrow>
      requests (snd (bootstrap (download_and_extract_tarball digest untar) url sha w)) =
        requests w @ [py_or url DEFAULT_URI]) \<and>
   (\<not> is_present_on_disk LIBRARY_SOURCE_CODE (disk w) \<longrightarrow>
      requests (snd (bootstrap (download_and_extract_tarball digest untar) url sha w)) =
        requests w @ [py_or url DEFAULT_URI])"
  by (simp add: bootstrap_download tarball_requests)

theorem bootstrap_downloads_unconditionally_witness:
  "is_present_on_disk LIBRARY_SOURCE_CODE (disk (example_world (manifest_disk example_manifest))) \<and>
   (\<forall>digest untar.
      requests (snd (bootstrap (download_and_extract_tarball digest untar)
                       (Some ''https://example.org/libstemmer.tgz'') None
                       (example_world (manifest_disk example_manifest)))) =
        [''https://example.org/libstemmer.tgz'']) \<and>
   \<not> is_present_on_disk LIBRARY_SOURCE_CODE (disk (example_world Map.empty)) \<and>
   (\<forall>digest untar.
      requests (snd (bootstrap (download_and_extract_tarball digest untar) None None
                       (example_world Map.empty))) =
        [''https://snowballstem.org/dist/libstemmer_c-3.0.0.tar.gz''])"
proof -
  let ?w = "example_world (manifest_disk example_manifest)"
  let ?v = "example_world Map.empty"
  have p: "is_present_on_disk LIBRARY_SOURCE_CODE (disk ?w)" by (rule example_present)
  have n: "\<not> is_present_on_disk LIBRARY_SOURCE_CODE (disk ?v)"
    by (simp add: is_present_on_disk_def example_world_def)
  have q: "requests ?w = []" "requests ?v = []" by (simp_all add: example_world_def)
  have a: "requests (snd (bootstrap (download_and_extract_tarball digest untar)
                       (Some ''https://example.org/libstemmer.tgz'') None ?w)) =
        [''https://example.org/libstemmer.tgz'']" for digest untar
  proof -
    from bootstrap_downloads_unconditionally
            [where w = ?w and url = "Some ''https://example.org/libstemmer.tgz''" and sha = None
               and digest = digest and untar = untar] p
    have "requests (snd (bootstrap (download_and_extract_tarball digest untar)
                       (Some ''https://example.org/libstemmer.tgz'') None ?w)) =
          requests ?w @ [py_or (Some ''https://example.org/libstemmer.tgz'') DEFAULT_URI]"
      by blast
    then show ?thesis by (simp add: q py_or_def)
  qed
  have b: "requests (snd (bootstrap (download_and_extract_tarball digest untar) None None ?v)) =
        [''https://snowballstem.org/dist/libstemmer_c-3.0.0.tar.gz'']" for digest untar
  proof -
    from bootstrap_downloads_unconditionally
            [where w = ?v and url = None and sha = None and digest = digest and untar = untar] n
    have "requests (snd (bootstrap (download_and_extract_tarball digest untar) None None ?v)) =
          requests ?v @ [py_or None DEFAULT_URI]"
      by blast
    then show ?thesis by (simp add: q py_or_def DEFAULT_URI_value)
  qed
  show ?thesis by (intro conjI allI) (rule p a n b)+
qed

theorem bootstrap_fetches_when_present_counterexample:
  "is_present_on_disk LIBRARY_SOURCE_CODE (disk (example_world (manifest_disk example_manifest))) \<and>
   requests (example_world (manifest_disk example_manifest)) = [] \<and>
   (\<forall>digest untar.
      requests (snd (bootstrap (download_and_extract_tarball digest untar) None None
                       (example_world (manifest_disk example_manifest)))) =
        [''https://snowballstem.org/dist/libstemmer_c-3.0.0.tar.gz''])"
proof (intro conjI allI)
  show "is_present_on_disk LIBRARY_SOURCE_CODE (disk (example_world (manifest_disk example_manifest)))"
    by (rule example_present)
  show "requests (example_world (manifest_disk example_manifest)) = []"
    by (simp add: example_world_def)
  show "requests (snd (bootstrap (download_and_extract_tarball digest untar) None None
                       (example_world (manifest_disk example_manifest)))) =
        [''https://snowballstem.org/dist/libstemmer_c-3.0.0.tar.gz'']" for digest untar
    by (simp add: bootstrap_download tarball_requests py_or_def DEFAULT_URI_value example_world_def)
qed

text \<open>
  C8. Amended: the default archive URI and the default SHA-256 checksum are embedded
  constants; \<open>download\<close> fetches from a supplied URL and verifies against a supplied
  checksum whenever the supplied string is not empty, and uses the default exactly when
  the argument is \<open>None\<close> or the empty string.
\<close>

theorem download_defaults_overridable:
  "DEFAULT_URI = ''https://snowballstem.org/dist/libstemmer_c-3.0.0.tar.gz'' \<and>
   DEFAULT_CHECKSUM = ''d4eca4485f6d3cb4387626a5f508b9b3489d24737525c23ba58026159497a8bc'' \<and>
   (u \<noteq> [] \<longrightarrow>
      download dl self (Some u) checksum w = dl u (py_or checksum DEFAULT_CHECKSUM) w \<and>
      requests (snd (download (download_and_extract_tarball digest untar) self (Some u) checksum w)) =
        requests w @ [u]) \<and>
   (c \<noteq> [] \<longrightarrow>
      download dl self url (Some c) w = dl (py_or url DEFAULT_URI) c w \<and>
      (remote w (py_or url DEFAULT_URI) = Some bs \<and> lower (digest bs) \<noteq> lower c \<longrightarrow>
         fst (download (download_and_extract_tarball digest untar) self url (Some c) w) =
           Inl (ChecksumMismatchError c (digest bs)))) \<and>
   download dl self None checksum w = dl DEFAULT_URI (py_or checksum DEFAULT_CHECKSUM) w \<and>
   download dl self (Some []) checksum w = dl DEFAULT_URI (py_or checksum DEFAULT_CHECKSUM) w \<and>
   download dl self url None w = dl (py_or url DEFAULT_URI) DEFAULT_CHECKSUM w \<and>
   download dl self url (Some []) w = dl (py_or url DEFAULT_URI) DEFAULT_CHECKSUM w"
proof (intro conjI impI)
  show "DEFAULT_URI = ''https://snowballstem.org/dist/libstemmer_c-3.0.0.tar.gz''"
    by (rule DEFAULT_URI_value)
  show "DEFAULT_CHECKSUM = ''d4eca4485f6d3cb4387626a5f508b9b3489d24737525c23ba58026159497a8bc''"
    by (rule DEFAULT_CHECKSUM_def)
  show "download dl self (Some u) checksum w = dl u (py_or checksum DEFAULT_CHECKSUM) w" if "u \<noteq> []"
    using that by (simp add: download_def py_or_def)
  show "requests (snd (download (download_and_extract_tarball digest untar) self (Some u) checksum w)) =
        requests w @ [u]" if "u \<noteq> []"
    using that by (simp add: download_def py_or_def tarball_requests)
  show "download dl self url (Some c) w = dl (py_or url DEFAULT_URI) c w" if "c \<noteq> []"
    using that by (simp add: download_def py_or_def)
  show "fst (download (download_and_extract_tarball digest untar) self url (Some c) w) =
           Inl (ChecksumMismatchError c (digest bs))"
    if "c \<noteq> []" and "remote w (py_or url DEFAULT_URI) = Some bs \<and> lower (digest bs) \<noteq> lower c"
  proof -
    from that(1) have "py_or (Some c) DEFAULT_CHECKSUM = c" by (simp add: py_or_def)
    then show ?thesis using that(2) by (simp add: download_def tarball_mismatch)
  qed
qed (simp_all add: download_def py_or_def)

theorem download_defaults_overridable_witness:
  "''https://example.org/libstemmer.tgz'' \<noteq> [] \<and> ''ab13'' \<noteq> [] \<and>
   (\<forall>dl self w. download dl self (Some ''https://example.org/libstemmer.tgz'') (Some ''ab13'') w =
        dl ''https://example.org/libstemmer.tgz'' ''ab13'' w) \<and>
   remote (example_world Map.empty) (py_or None DEFAULT_URI) = Some ''archive'' \<and>
   lower ''AB12'' \<noteq> lower ''ab13'' \<and>
   (\<forall>untar self. fst (download (download_and_extract_tarball (\<lambda>bs. ''AB12'') untar) self None (Some ''ab13'')
                       (example_world Map.empty)) =
        Inl (ChecksumMismatchError ''ab13'' ''AB12''))"
proof -
  let ?u = "''https://example.org/libstemmer.tgz''"
  have u: "?u \<noteq> []" and c: "''ab13'' \<noteq> []" by simp_all
  have r: "remote (example_world Map.empty) (py_or None DEFAULT_URI) = Some ''archive''"
    by (simp add: py_or_def example_remote)
  have n: "lower ''AB12'' \<noteq> lower ''ab13''" by (simp add: lower_def lower_char_def)
  have a: "download dl self (Some ?u) (Some ''ab13'') w = dl ?u ''ab13'' w" for dl self w
  proof -
    from download_defaults_overridable
            [where u = ?u and dl = dl and self = self and checksum = "Some ''ab13''" and w = w] u
    have "download dl self (Some ?u) (Some ''ab13'') w = dl ?u (py_or (Some ''ab13'') DEFAULT_CHECKSUM) w"
      by blast
    then show ?thesis by (simp add: py_or_def)
  qed
  have b: "fst (download (download_and_extract_tarball (\<lambda>bs. ''AB12'') untar) self None (Some ''ab13'')
                 (example_world Map.empty)) = Inl (ChecksumMismatchError ''ab13'' ''AB12'')" for untar self
    using download_defaults_overridable
            [where c = "''ab13''" and self = self and url = None and w = "example_world Map.empty"
               and bs = "''archive''" and digest = "\<lambda>bs. ''AB12''" and untar = untar] c r n
    by blast
  show ?thesis by (intro conjI allI) (rule u c a r n b)+
qed

theorem download_empty_override_counterexample:
  "(\<forall>digest untar.
      requests (snd (download (download_and_extract_tarball digest untar) LIBRARY_SOURCE_CODE
                       (Some []) (Some []) (example_world Map.empty))) =
        [''https://snowballstem.org/dist/libstemmer_c-3.0.0.tar.gz'']) \<and>
   (\<forall>untar.
      fst (download (download_and_extract_tarball (\<lambda>bs. ''00'') untar) LIBRARY_SOURCE_CODE
             (Some []) (Some []) (example_world Map.empty)) =
        Inl (ChecksumMismatchError
               ''d4eca4485f6d3cb4387626a5f508b9b3489d24737525c23ba58026159497a8bc'' ''00''))"
proof (intro conjI allI)
  show "requests (snd (download (download_and_extract_tarball digest untar) LIBRARY_SOURCE_CODE
                       (Some []) (Some []) (example_world Map.empty))) =
        [''https://snowballstem.org/dist/libstemmer_c-3.0.0.tar.gz'']" for digest untar
    by (simp add: download_def py_or_def tarball_requests DEFAULT_URI_value example_world_def)
  have r0: "remote (example_world Map.empty) DEFAULT_URI = Some ''archive''"
    by (rule example_remote)
  have n: "lower ''00'' \<noteq> lower DEFAULT_CHECKSUM"
    by (simp add: lower_def lower_char_def DEFAULT_CHECKSUM_def)
  show "fst (download (download_and_extract_tarball (\<lambda>bs. ''00'') untar) LIBRARY_SOURCE_CODE
             (Some []) (Some []) (example_world Map.empty)) =
        Inl (ChecksumMismatchError
               ''d4eca4485f6d3cb4387626a5f508b9b3489d24737525c23ba58026159497a8bc'' ''00'')" for untar
    using tarball_mismatch [OF r0 n]
    by (simp add: download_def py_or_def DEFAULT_CHECKSUM_def)
qed

end
